theory Spec2Isabelle
  imports Complex_Main
begin

section \<open>Data model\<close>

text \<open>
  The notebook works on numpy arrays of floating-point numbers. A one-dimensional array
  is modelled as a list of reals, a two-dimensional array as the list of its rows, and
  floating-point arithmetic as arithmetic on the reals. The two agree where the
  floating-point operations do not round. No statement below says more than that: each
  either does not depend on the numbers computed (lengths, keys, the order of entries,
  which exception is raised), or concerns arrays of zeros, or is evaluated at arrays
  whose entries are small integers and on which every sum, quotient and square root is
  a small integer again. A token is a Python string; the embedding table
  \<open>en_embeddings\<close> is a dictionary from tokens to arrays.
\<close>

type_synonym token = string
type_synonym vec = "real list"
type_synonym matrix = "real list list"
type_synonym embeddings = "token \<rightharpoonup> vec"

text \<open>The exceptions that the modelled statements can raise.\<close>

datatype error = ValueError | UnboundLocalError | IndexError

text \<open>\<open>np.zeros(n)\<close>.\<close>

definition zeros :: "nat \<Rightarrow> vec" where
  "zeros n = replicate n 0"

text \<open>
  \<open>a += b\<close> on one-dimensional arrays: the shape of \<open>a\<close> is kept, \<open>b\<close> is added
  elementwise when it has the same length, a one-element \<open>b\<close> is broadcast, and every
  other length raises ValueError.
\<close>

definition iadd :: "vec \<Rightarrow> vec \<Rightarrow> error + vec" where
  "iadd a b =
     (if length b = length a then Inr (map2 (+) a b)
      else if length b = 1 then Inr (map (\<lambda>x. x + hd b) a)
      else Inl ValueError)"

text \<open>\<open>np.divide(a, n)\<close> for an array \<open>a\<close> and the integer \<open>n = len(post)\<close>.\<close>

definition np_divide :: "vec \<Rightarrow> nat \<Rightarrow> vec" where
  "np_divide a n = map (\<lambda>x. x / real n) a"

text \<open>\<open>d.get(k, default)\<close>.\<close>

definition dict_get :: "('k \<rightharpoonup> 'v) \<Rightarrow> 'k \<Rightarrow> 'v \<Rightarrow> 'v" where
  "dict_get d k dflt = (case d k of None \<Rightarrow> dflt | Some v \<Rightarrow> v)"

section \<open>Document embeddings\<close>

text \<open>
  \<^verbatim>\<open>
  def compute_doc_embedding(post):
      doc_embedding = np.zeros(300)
      for token in post:
          doc_embedding += en_embeddings.get(token, np.zeros(300))
          doc_embedding = np.divide(doc_embedding, len(post))
      return doc_embedding
  \<close>
  The function reads the module-level table \<open>en_embeddings\<close>, which is the first
  argument of the model. The loop is \<open>doc_embedding_loop\<close>: its second argument is
  \<open>len(post)\<close>, its third the running \<open>doc_embedding\<close>, its fourth the tokens still to
  be visited.
\<close>

fun doc_embedding_loop :: "embeddings \<Rightarrow> nat \<Rightarrow> vec \<Rightarrow> token list \<Rightarrow> error + vec" where
  "doc_embedding_loop en_embeddings n doc_embedding [] = Inr doc_embedding"
| "doc_embedding_loop en_embeddings n doc_embedding (tok # rest) =
     (case iadd doc_embedding (dict_get en_embeddings tok (zeros 300)) of
        Inl e \<Rightarrow> Inl e
      | Inr s \<Rightarrow> doc_embedding_loop en_embeddings n (np_divide s n) rest)"

definition compute_doc_embedding :: "embeddings \<Rightarrow> token list \<Rightarrow> error + vec" where
  "compute_doc_embedding en_embeddings post =
     doc_embedding_loop en_embeddings (length post) (zeros 300) post"

section \<open>The corpus matrix\<close>

text \<open>
  \<open>np.vstack(tup)\<close> on a list of one-dimensional arrays: the arrays become the rows
  of the result. An empty list and rows of different lengths raise ValueError.
\<close>

definition vstack :: "vec list \<Rightarrow> error + matrix" where
  "vstack tup =
     (if tup = [] then Inl ValueError
      else if list_all (\<lambda>r. length r = length (hd tup)) tup then Inr tup
      else Inl ValueError)"

text \<open>
  \<^verbatim>\<open>
  def vectorize_posts(posts, en_embeddings):
      ind2Doc_dict = {}
      document_vec_l = []
      posts_embeddings = []
      i = 0
      for post in posts:
          doc_embedding = compute_doc_embedding(post)
          ind2Doc_dict[i] = doc_embedding
          i += 1
          document_vec_l.append(doc_embedding)
          document_vec_matrix = np.vstack(document_vec_l)
      return document_vec_matrix, ind2Doc_dict
  \<close>
  The local variables are the arguments of \<open>vectorize_loop\<close>. The variable
  \<open>document_vec_matrix\<close> is assigned only inside the loop: it is \<open>None\<close> while it is
  unbound, and the \<open>return\<close> raises UnboundLocalError when it still is. The parameter
  \<open>en_embeddings\<close> of \<open>vectorize_posts\<close> is never read: \<open>compute_doc_embedding\<close> reads
  the module-level table, the first argument of the model.
\<close>

fun vectorize_loop ::
  "embeddings \<Rightarrow> (nat \<rightharpoonup> vec) \<Rightarrow> vec list \<Rightarrow> nat \<Rightarrow> matrix option \<Rightarrow> token list list
     \<Rightarrow> error + (matrix option \<times> (nat \<rightharpoonup> vec))" where
  "vectorize_loop global_embeddings ind2Doc_dict document_vec_l i document_vec_matrix [] =
     Inr (document_vec_matrix, ind2Doc_dict)"
| "vectorize_loop global_embeddings ind2Doc_dict document_vec_l i document_vec_matrix
     (post # rest) =
     (case compute_doc_embedding global_embeddings post of
        Inl e \<Rightarrow> Inl e
      | Inr doc_embedding \<Rightarrow>
          (case vstack (document_vec_l @ [doc_embedding]) of
             Inl e \<Rightarrow> Inl e
           | Inr stacked \<Rightarrow>
               vectorize_loop global_embeddings (ind2Doc_dict(i \<mapsto> doc_embedding))
                 (document_vec_l @ [doc_embedding]) (i + 1) (Some stacked) rest))"

definition vectorize_posts ::
  "embeddings \<Rightarrow> token list list \<Rightarrow> embeddings \<Rightarrow> error + (matrix \<times> (nat \<rightharpoonup> vec))" where
  "vectorize_posts global_embeddings posts en_embeddings =
     (case vectorize_loop global_embeddings Map.empty [] 0 None posts of
        Inl e \<Rightarrow> Inl e
      | Inr (None, ind2Doc_dict) \<Rightarrow> Inl UnboundLocalError
      | Inr (Some document_vec_matrix, ind2Doc_dict) \<Rightarrow>
          Inr (document_vec_matrix, ind2Doc_dict))"

section \<open>Ranking\<close>

text \<open>
  Modelled from the spec: \<open>cosine_similarity\<close> is imported from \<open>utils.py\<close>, which is
  not among the sources. The specification gives, for the query vector \<open>q\<close> and each row
  \<open>r\<close> of the matrix, the score \<open>dot(q, r) / (\<parallel>q\<parallel> \<sqdot> \<parallel>r\<parallel>)\<close>, and the score 0 when
  either norm is zero. The notebook passes the matrix first and the query second.
\<close>

definition dot :: "vec \<Rightarrow> vec \<Rightarrow> real" where
  "dot a b = sum_list (map2 (*) a b)"

definition vec_norm :: "vec \<Rightarrow> real" where
  "vec_norm a = sqrt (dot a a)"

definition cosine_row :: "vec \<Rightarrow> vec \<Rightarrow> real" where
  "cosine_row q r =
     (if vec_norm q = 0 \<or> vec_norm r = 0 then 0
      else dot q r / (vec_norm q * vec_norm r))"

definition cosine_similarity :: "matrix \<Rightarrow> vec \<Rightarrow> vec" where
  "cosine_similarity posts_vec_matrix query_embedding =
     map (cosine_row query_embedding) posts_vec_matrix"

text \<open>
  \<open>np.argsort(a)\<close> returns the indices of \<open>a\<close> in ascending order of their values.
  The notebook passes no \<open>kind\<close>, and numpy's default sort is not stable: the order
  in which it returns the indices of equal values is not fixed. The sort is therefore
  a parameter \<open>np_argsort\<close> of the model, and \<open>is_argsort a p\<close> says that \<open>p\<close> is
  an answer that \<open>np.argsort\<close> may give for \<open>a\<close>: every index once, the values
  never decreasing along it.
\<close>

definition index_permutation :: "nat \<Rightarrow> nat list \<Rightarrow> bool" where
  "index_permutation n p = (distinct p \<and> set p = {0..<n})"

definition is_argsort :: "vec \<Rightarrow> nat list \<Rightarrow> bool" where
  "is_argsort a p = (index_permutation (length a) p \<and> sorted (map (\<lambda>i. a ! i) p))"

text \<open>
  One such sort, for the examples: insertion sort, which returns the indices of equal
  values in ascending order.
\<close>

definition insertion_argsort :: "vec \<Rightarrow> nat list" where
  "insertion_argsort a = sort_key (\<lambda>i. a ! i) [0..<length a]"

text \<open>
  The Python slice \<open>xs[start:]\<close>: a negative \<open>start\<close> counts from the end, and a
  \<open>start\<close> outside the list is clamped, never an error.
\<close>

definition slice_from :: "int \<Rightarrow> 'a list \<Rightarrow> 'a list" where
  "slice_from start xs =
     drop (nat (if start < 0 then max 0 (int (length xs) + start)
                else min start (int (length xs)))) xs"

text \<open>\<open>np.argsort(cosine_score)[-configurations["top-k"]:][::-1]\<close>\<close>

definition top_indices :: "(vec \<Rightarrow> nat list) \<Rightarrow> vec \<Rightarrow> int \<Rightarrow> nat list" where
  "top_indices np_argsort cosine_score top_k =
     rev (slice_from (- top_k) (np_argsort cosine_score))"

text \<open>
  The ranking of one query vector, as the pairs of index and score that the notebook
  writes into its result records.
\<close>

definition rank ::
  "(vec \<Rightarrow> nat list) \<Rightarrow> matrix \<Rightarrow> vec \<Rightarrow> int \<Rightarrow> (nat \<times> real) list" where
  "rank np_argsort posts_vec_matrix query_embedding top_k =
     (let cosine_score = cosine_similarity posts_vec_matrix query_embedding
      in map (\<lambda>idx. (idx, cosine_score ! idx))
           (top_indices np_argsort cosine_score top_k))"

section \<open>The query loop\<close>

text \<open>\<open>str(idx)\<close> for a non-negative integer: its decimal digits.\<close>

definition digit_char :: "nat \<Rightarrow> char" where
  "digit_char d = ''0123456789'' ! d"

fun str_nat :: "nat \<Rightarrow> string" where
  "str_nat n =
     (if n < 10 then [digit_char n] else str_nat (n div 10) @ [digit_char (n mod 10)])"

declare str_nat.simps [simp del]

text \<open>\<open>' '.join(query)\<close>\<close>

fun join_space :: "string list \<Rightarrow> string" where
  "join_space [] = []"
| "join_space [w] = w"
| "join_space (w # v # ws) = w @ '' '' @ join_space (v # ws)"

text \<open>
  One result record, \<open>{'post ID': str(idx), 'post text': ls_posts[idx],
  'sim score': str(cosine_score[idx])}\<close>. The score is kept as the number: the text
  that \<open>str\<close> prints for a floating-point number is not modelled.
\<close>

record top_post =
  post_ID :: string
  post_text :: string
  sim_score :: real

text \<open>
  \<^verbatim>\<open>
  query_posts_similarities = {}
  for query in tokenized_queries:
      query_embedding = compute_doc_embedding(query)
      cosine_score = cosine_similarity(posts_vec_matrix, query_embedding)
      top_indices = np.argsort(cosine_score)[-configurations["top-k"]:][::-1]
      query_str = ' '.join(query)
      query_posts_similarities[query_str] = []
      top_posts = []
      for idx in top_indices:
          top_posts.append({'post ID': str(idx),
                            'post text': ls_posts[idx],
                            "sim score": str(cosine_score[idx])})
      query_posts_similarities[query_str] = top_posts
  \<close>
  \<open>top_posts_loop\<close> is the inner loop, \<open>query_top_posts\<close> the body of the outer loop up
  to the list it stores, \<open>query_loop\<close> the outer loop. An index outside \<open>ls_posts\<close>
  or \<open>cosine_score\<close> raises IndexError. An exception ends the run, and the dictionary
  built so far is lost with it.
\<close>

fun top_posts_loop ::
  "string list \<Rightarrow> vec \<Rightarrow> top_post list \<Rightarrow> nat list \<Rightarrow> error + top_post list" where
  "top_posts_loop ls_posts cosine_score top_posts [] = Inr top_posts"
| "top_posts_loop ls_posts cosine_score top_posts (idx # rest) =
     (if idx < length ls_posts \<and> idx < length cosine_score
      then top_posts_loop ls_posts cosine_score
             (top_posts @ [\<lparr>post_ID = str_nat idx, post_text = ls_posts ! idx,
                           sim_score = cosine_score ! idx\<rparr>]) rest
      else Inl IndexError)"

definition query_top_posts ::
  "(vec \<Rightarrow> nat list) \<Rightarrow> embeddings \<Rightarrow> matrix \<Rightarrow> string list \<Rightarrow> int \<Rightarrow> token list
     \<Rightarrow> error + top_post list" where
  "query_top_posts np_argsort en_embeddings posts_vec_matrix ls_posts top_k query =
     (case compute_doc_embedding en_embeddings query of
        Inl e \<Rightarrow> Inl e
      | Inr query_embedding \<Rightarrow>
          (let cosine_score = cosine_similarity posts_vec_matrix query_embedding
           in top_posts_loop ls_posts cosine_score []
                (top_indices np_argsort cosine_score top_k)))"

fun query_loop ::
  "(vec \<Rightarrow> nat list) \<Rightarrow> embeddings \<Rightarrow> matrix \<Rightarrow> string list \<Rightarrow> int
     \<Rightarrow> (string \<rightharpoonup> top_post list) \<Rightarrow> token list list
     \<Rightarrow> error + (string \<rightharpoonup> top_post list)" where
  "query_loop np_argsort en_embeddings posts_vec_matrix ls_posts top_k similarities [] =
     Inr similarities"
| "query_loop np_argsort en_embeddings posts_vec_matrix ls_posts top_k similarities
     (query # rest) =
     (case query_top_posts np_argsort en_embeddings posts_vec_matrix ls_posts top_k query of
        Inl e \<Rightarrow> Inl e
      | Inr top_posts \<Rightarrow>
          query_loop np_argsort en_embeddings posts_vec_matrix ls_posts top_k
            (similarities(join_space query \<mapsto> top_posts)) rest)"

definition query_posts_similarities ::
  "(vec \<Rightarrow> nat list) \<Rightarrow> embeddings \<Rightarrow> matrix \<Rightarrow> string list \<Rightarrow> int \<Rightarrow> token list list
     \<Rightarrow> error + (string \<rightharpoonup> top_post list)" where
  "query_posts_similarities np_argsort en_embeddings posts_vec_matrix ls_posts top_k
     tokenized_queries =
     query_loop np_argsort en_embeddings posts_vec_matrix ls_posts top_k Map.empty
       tokenized_queries"

section \<open>The encoder and the result order as the specification words them\<close>

text \<open>
  The specification's encoder: a running sum of dimension 300 that starts at zero; for
  each token in document order the embedding is added when the store has one; after
  each token the running sum is divided by the number of tokens processed so far.
\<close>

fun spec_encode_loop :: "embeddings \<Rightarrow> nat \<Rightarrow> vec \<Rightarrow> token list \<Rightarrow> vec" where
  "spec_encode_loop store processed running [] = running"
| "spec_encode_loop store processed running (tok # rest) =
     (let added = (case store tok of None \<Rightarrow> running | Some v \<Rightarrow> map2 (+) running v)
      in spec_encode_loop store (Suc processed)
           (map (\<lambda>x. x / real (Suc processed)) added) rest)"

definition spec_encode :: "embeddings \<Rightarrow> token list \<Rightarrow> vec" where
  "spec_encode store document = spec_encode_loop store 0 (zeros 300) document"

text \<open>
  The specification's result order: scores never increase along the sequence, and of
  two entries with the same score the one with the lower index comes first.
\<close>

definition spec_rank_order :: "(nat \<times> real) list \<Rightarrow> bool" where
  "spec_rank_order ranked =
     sorted_wrt (\<lambda>a b. snd a > snd b \<or> (snd a = snd b \<and> fst a < fst b)) ranked"

section \<open>Auxiliary notions and example data\<close>

text \<open>Every token of the post that has an embedding has one of dimension 300.\<close>

definition known_dimension :: "embeddings \<Rightarrow> token list \<Rightarrow> bool" where
  "known_dimension en_embeddings post =
     list_all (\<lambda>t. case en_embeddings t of None \<Rightarrow> True | Some v \<Rightarrow> length v = 300) post"

text \<open>
  The example arrays have one entry that may differ from zero, the first, so that every
  number computed from them is computed without rounding.
\<close>

definition along_first :: "real \<Rightarrow> vec" where
  "along_first x = x # replicate 299 0"

definition example_embeddings :: embeddings where
  "example_embeddings = [''a'' \<mapsto> along_first 4, ''b'' \<mapsto> along_first 2]"

definition tied_matrix :: matrix where
  "tied_matrix = [along_first 1, along_first 1]"

definition opposed_matrix :: matrix where
  "opposed_matrix = [along_first 4, along_first (- 4)]"

section \<open>Properties of the document encoder\<close>

lemma length_zeros: "length (zeros n) = n"
  by (simp add: zeros_def)

lemma iadd_zeros: "iadd (zeros n) (zeros n) = Inr (zeros n)"
  by (simp add: iadd_def zeros_def)

lemma np_divide_zeros: "np_divide (zeros n) m = zeros n"
  by (simp add: np_divide_def zeros_def)

lemma iadd_zeros_right: "length a = n \<Longrightarrow> iadd a (zeros n) = Inr a"
  by (simp add: iadd_def zeros_def list_eq_iff_nth_eq)

lemma iadd_same_length: "length b = length a \<Longrightarrow> iadd a b = Inr (map2 (+) a b)"
  by (simp add: iadd_def)

lemma iadd_length: "iadd a b = Inr s \<Longrightarrow> length s = length a"
  by (auto simp: iadd_def split: if_splits)

lemma length_np_divide: "length (np_divide a n) = length a"
  by (simp add: np_divide_def)

lemma doc_embedding_loop_unknown:
  "\<forall>t \<in> set ts. E t = None \<Longrightarrow> doc_embedding_loop E n (zeros 300) ts = Inr (zeros 300)"
  by (induction ts) (simp_all add: dict_get_def iadd_zeros np_divide_zeros)

lemma doc_embedding_loop_absent:
  "E tok = None \<Longrightarrow>
   doc_embedding_loop (E(tok \<mapsto> zeros 300)) n acc ts = doc_embedding_loop E n acc ts"
  by (induction ts arbitrary: acc) (auto simp: dict_get_def split: sum.splits)

text \<open>The running array keeps its length, so every document vector has 300 entries.\<close>

lemma doc_embedding_loop_length:
  "doc_embedding_loop E n acc ts = Inr v \<Longrightarrow> length v = length acc"
proof (induction ts arbitrary: acc)
  case Nil
  then show ?case by simp
next
  case (Cons t ts)
  then obtain s where s: "iadd acc (dict_get E t (zeros 300)) = Inr s"
    and r: "doc_embedding_loop E n (np_divide s n) ts = Inr v"
    by (auto split: sum.splits)
  from Cons.IH [OF r] iadd_length [OF s] show ?case
    by (simp add: length_np_divide)
qed

lemma compute_doc_embedding_length:
  "compute_doc_embedding E post = Inr v \<Longrightarrow> length v = 300"
  unfolding compute_doc_embedding_def
  by (drule doc_embedding_loop_length) (simp add: length_zeros)

text \<open>The encoder returns when the embeddings it adds have dimension 300.\<close>

lemma known_dimension_Cons:
  "known_dimension E (t # ts) \<Longrightarrow>
   known_dimension E ts \<and> length (dict_get E t (zeros 300)) = 300"
  by (auto simp: known_dimension_def dict_get_def length_zeros split: option.splits)

lemma doc_embedding_loop_returns:
  assumes "known_dimension E ts" and "length acc = 300"
  shows "\<exists>v. doc_embedding_loop E n acc ts = Inr v"
  using assms
proof (induction ts arbitrary: acc)
  case Nil
  then show ?case by simp
next
  case (Cons t ts)
  let ?e = "dict_get E t (zeros 300)"
  have le: "length ?e = 300" and kd: "known_dimension E ts"
    using known_dimension_Cons [OF Cons.prems(1)] by simp_all
  have add: "iadd acc ?e = Inr (map2 (+) acc ?e)"
    using le Cons.prems(2) by (simp add: iadd_same_length)
  have "length (np_divide (map2 (+) acc ?e) n) = 300"
    using le Cons.prems(2) by (simp add: np_divide_def)
  from Cons.IH [OF kd this] show ?case
    by (simp add: add)
qed

lemma compute_doc_embedding_returns:
  "known_dimension E post \<Longrightarrow> \<exists>v. compute_doc_embedding E post = Inr v"
  unfolding compute_doc_embedding_def
  by (rule doc_embedding_loop_returns) (simp_all add: length_zeros)

text \<open>The encoder on the example table.\<close>

lemma length_along_first: "length (along_first x) = 300"
  by (simp add: along_first_def)

lemma zeros_along_first: "zeros 300 = along_first 0"
  by (simp add: zeros_def along_first_def flip: replicate_Suc)

lemma along_first_eq: "along_first x = along_first y \<longleftrightarrow> x = y"
  by (simp add: along_first_def)

lemma map2_add_along_first: "map2 (+) (along_first x) (along_first y) = along_first (x + y)"
  by (simp add: along_first_def)

lemma map_divide_along_first: "map (\<lambda>v. v / c) (along_first x) = along_first (x / c)"
  by (simp add: along_first_def)

lemma iadd_along_first: "iadd (along_first x) (along_first y) = Inr (along_first (x + y))"
  by (simp add: iadd_def length_along_first map2_add_along_first)

lemma np_divide_along_first: "np_divide (along_first x) n = along_first (x / real n)"
  by (simp add: np_divide_def map_divide_along_first)

lemma compute_example_a:
  "compute_doc_embedding example_embeddings [''a''] = Inr (along_first 4)"
  by (simp add: compute_doc_embedding_def example_embeddings_def dict_get_def
      zeros_along_first iadd_along_first np_divide_along_first)

lemma compute_example_ab:
  "compute_doc_embedding example_embeddings [''a'', ''b''] = Inr (along_first 2)"
  by (simp add: compute_doc_embedding_def example_embeddings_def dict_get_def
      zeros_along_first iadd_along_first np_divide_along_first)

lemma spec_encode_example_ab:
  "spec_encode example_embeddings [''a'', ''b''] = along_first 3"
  by (simp add: spec_encode_def example_embeddings_def zeros_along_first along_first_def)

lemma compute_example_unknown:
  "compute_doc_embedding example_embeddings [''a b''] = Inr (zeros 300)"
  using doc_embedding_loop_unknown [of "[''a b'']" example_embeddings 1]
  by (simp add: compute_doc_embedding_def example_embeddings_def
      del: doc_embedding_loop.simps)

lemma compute_empty_table:
  "compute_doc_embedding Map.empty [''x''] = Inr (zeros 300)"
  using doc_embedding_loop_unknown [of "[''x'']" Map.empty 1]
  by (simp add: compute_doc_embedding_def del: doc_embedding_loop.simps)


text \<open>
  Claim C5. Encoding the empty document raises nothing, in particular no division by
  zero (the loop body, which holds the only division, is never entered), and returns
  the zero vector of dimension 300, whatever the embedding table holds.
\<close>

theorem encode_empty_document:
  "compute_doc_embedding en_embeddings [] = Inr (zeros 300)
   \<and> length (zeros 300) = 300"
  by (simp add: compute_doc_embedding_def length_zeros)

text \<open>
  Claim C6. A token that the embedding table does not hold raises no error and adds
  nothing to the running sum: the pass for it only divides the running array, and the
  encoder returns what it returns when the table holds the zero vector for that token.
  A document all of whose tokens are unknown encodes to the zero vector of dimension
  300.
\<close>

theorem unknown_tokens_contribute_zero:
  "(en_embeddings tok = None \<and> length doc_embedding = 300 \<longrightarrow>
      doc_embedding_loop en_embeddings n doc_embedding (tok # rest)
        = doc_embedding_loop en_embeddings n (np_divide doc_embedding n) rest)
   \<and> (en_embeddings tok = None \<longrightarrow>
      compute_doc_embedding (en_embeddings(tok \<mapsto> zeros 300)) post
        = compute_doc_embedding en_embeddings post)
   \<and> ((\<forall>t \<in> set post. en_embeddings t = None) \<longrightarrow>
      compute_doc_embedding en_embeddings post = Inr (zeros 300))"
  by (simp add: compute_doc_embedding_def doc_embedding_loop_absent
      doc_embedding_loop_unknown dict_get_def iadd_zeros_right)

text \<open>The theorem at the empty table and the document of the two unknown tokens x, y.\<close>

theorem unknown_tokens_contribute_zero_witness:
  "(Map.empty :: embeddings) ''x'' = None \<and> (Map.empty :: embeddings) ''y'' = None
   \<and> length (zeros 300) = 300
   \<and> doc_embedding_loop Map.empty 2 (zeros 300) [''x'', ''y'']
        = doc_embedding_loop Map.empty 2 (np_divide (zeros 300) 2) [''y'']
   \<and> compute_doc_embedding [''x'' \<mapsto> zeros 300] [''x'', ''y'']
        = compute_doc_embedding Map.empty [''x'', ''y'']
   \<and> compute_doc_embedding Map.empty [''x'', ''y''] = Inr (zeros 300)"
  using unknown_tokens_contribute_zero
    [of Map.empty "''x''" "zeros 300" 2 "[''y'']" "[''x'', ''y'']"]
  by (simp add: length_zeros del: doc_embedding_loop.simps)

text \<open>
  Claim C1. The claim has the running sum divided, after each token, by the number of
  tokens processed so far; for a document of two tokens that is the average of the two
  embeddings, which the comment above \<open>compute_doc_embedding\<close> promises as well. The
  notebook divides by \<open>len(post)\<close> in every pass instead. In the example table, where
  the first entry is 4 for the token a and 2 for the token b, the document a, b gets
  \<open>((0 + 4) / 2 + 2) / 2 = 2\<close> as its first entry from the notebook and
  \<open>((0 + 4) / 1 + 2) / 2 = 3\<close> from the claim's rule.
\<close>

theorem doc_embedding_two_tokens:
  "compute_doc_embedding example_embeddings [''a'', ''b''] = Inr (along_first 2)
   \<and> spec_encode example_embeddings [''a'', ''b''] = along_first 3
   \<and> compute_doc_embedding example_embeddings [''a'', ''b'']
       \<noteq> Inr (spec_encode example_embeddings [''a'', ''b''])"
  by (simp add: compute_example_ab spec_encode_example_ab along_first_eq)

section \<open>Properties of the corpus matrix\<close>

lemma vstack_rows:
  "\<forall>r \<in> set l. length r = 300 \<Longrightarrow> length v = 300 \<Longrightarrow> vstack (l @ [v]) = Inr (l @ [v])"
  by (cases l) (auto simp: vstack_def list_all_iff)

text \<open>
  What the loop returns when it returns: the document vectors \<open>vs\<close> of the posts, in
  order, appended to the list, and stored in the dictionary from the counter on.
\<close>

lemma vectorize_loop_result:
  assumes "vectorize_loop G d l i mo ps = Inr (mo', d')"
    and "\<forall>r \<in> set l. length r = 300"
  shows "\<exists>vs. length vs = length ps
           \<and> (\<forall>j<length ps. compute_doc_embedding G (ps ! j) = Inr (vs ! j))
           \<and> mo' = (if ps = [] then mo else Some (l @ vs))
           \<and> d' = (\<lambda>k. if i \<le> k \<and> k < i + length ps then Some (vs ! (k - i)) else d k)"
  using assms
proof (induction ps arbitrary: d l i mo)
  case Nil
  then show ?case by (auto simp: fun_eq_iff)
next
  case (Cons p ps)
  from Cons.prems(1) obtain v where v: "compute_doc_embedding G p = Inr v"
    by (auto split: sum.splits)
  have lv: "length v = 300" by (rule compute_doc_embedding_length [OF v])
  have vs: "vstack (l @ [v]) = Inr (l @ [v])"
    using Cons.prems(2) lv by (rule vstack_rows)
  have rec: "vectorize_loop G (d(i \<mapsto> v)) (l @ [v]) (i + 1) (Some (l @ [v])) ps
               = Inr (mo', d')"
    using Cons.prems(1) v vs by simp
  have rows: "\<forall>r \<in> set (l @ [v]). length r = 300"
    using Cons.prems(2) lv by simp
  from Cons.IH [OF rec rows] obtain ws where ws: "length ws = length ps"
    "\<forall>j<length ps. compute_doc_embedding G (ps ! j) = Inr (ws ! j)"
    "mo' = (if ps = [] then Some (l @ [v]) else Some ((l @ [v]) @ ws))"
    "d' = (\<lambda>k. if i + 1 \<le> k \<and> k < i + 1 + length ps then Some (ws ! (k - (i + 1)))
                else (d(i \<mapsto> v)) k)"
    by blast
  have a: "length (v # ws) = length (p # ps)" using ws(1) by simp
  have b: "\<forall>j<length (p # ps). compute_doc_embedding G ((p # ps) ! j) = Inr ((v # ws) ! j)"
    using v ws(2) by (auto simp: nth_Cons split: nat.splits)
  have c: "mo' = (if p # ps = [] then mo else Some (l @ (v # ws)))"
    using ws(1,3) by auto
  have e: "d' = (\<lambda>k. if i \<le> k \<and> k < i + length (p # ps) then Some ((v # ws) ! (k - i))
                      else d k)"
    unfolding ws(4) by (rule ext) (auto simp: nth_Cons')
  from a b c e show ?case by blast
qed

lemma vectorize_loop_returns:
  assumes "\<forall>p \<in> set ps. known_dimension G p" and "\<forall>r \<in> set l. length r = 300"
  shows "\<exists>r. vectorize_loop G d l i mo ps = Inr r"
  using assms
proof (induction ps arbitrary: d l i mo)
  case Nil
  then show ?case by simp
next
  case (Cons p ps)
  from Cons.prems(1) obtain v where v: "compute_doc_embedding G p = Inr v"
    using compute_doc_embedding_returns [of G p] by auto
  have lv: "length v = 300" by (rule compute_doc_embedding_length [OF v])
  have vs: "vstack (l @ [v]) = Inr (l @ [v])"
    using Cons.prems(2) lv by (rule vstack_rows)
  have rows: "\<forall>r \<in> set (l @ [v]). length r = 300"
    using Cons.prems(2) lv by simp
  have "\<exists>r. vectorize_loop G (d(i \<mapsto> v)) (l @ [v]) (i + 1) (Some (l @ [v])) ps = Inr r"
    using Cons.prems(1) rows by (intro Cons.IH) simp_all
  then show ?case using v vs by simp
qed

lemma vectorize_unknown:
  "vectorize_posts Map.empty [[''x'']] E = Inr ([zeros 300], [0 \<mapsto> zeros 300])"
  by (simp add: vectorize_posts_def compute_empty_table vstack_def)



text \<open>
  Claim C10. For every non-empty sequence of N posts, the two values that
  \<open>vectorize_posts\<close> returns agree: the dictionary \<open>ind2Doc_dict\<close> has exactly the
  keys 0 to N - 1, the matrix has N rows, and the dictionary's entry at every index is
  the row of the matrix at that index. The call does return when the known tokens of
  every post have embeddings of dimension 300.
\<close>

theorem vectorize_posts_dict_matches_matrix:
  assumes "posts \<noteq> []"
  shows "((\<forall>post \<in> set posts. known_dimension global_embeddings post) \<longrightarrow>
            (\<exists>m d. vectorize_posts global_embeddings posts en_embeddings = Inr (m, d)))
         \<and> (vectorize_posts global_embeddings posts en_embeddings = Inr (m, d) \<longrightarrow>
              dom d = {0..<length posts} \<and> length m = length posts
              \<and> (\<forall>i<length posts. d i = Some (m ! i)))"
proof (intro conjI impI)
  assume "\<forall>post \<in> set posts. known_dimension global_embeddings post"
  then obtain mo d' where
    r: "vectorize_loop global_embeddings Map.empty [] 0 None posts = Inr (mo, d')"
    using vectorize_loop_returns [of posts global_embeddings "[]" Map.empty 0 None] by auto
  from vectorize_loop_result [OF r] assms obtain vs where "mo = Some vs"
    by auto
  with r show "\<exists>m d. vectorize_posts global_embeddings posts en_embeddings = Inr (m, d)"
    by (simp add: vectorize_posts_def)
next
  assume ret: "vectorize_posts global_embeddings posts en_embeddings = Inr (m, d)"
  then have r: "vectorize_loop global_embeddings Map.empty [] 0 None posts = Inr (Some m, d)"
    by (auto simp: vectorize_posts_def split: sum.splits option.splits)
  from vectorize_loop_result [OF r] assms have len: "length m = length posts"
    and d: "d = (\<lambda>k. if k < length posts then Some (m ! k) else None)"
    by auto
  show "dom d = {0..<length posts}"
    unfolding d by (auto simp: dom_def)
  show "length m = length posts" by (rule len)
  show "\<forall>i<length posts. d i = Some (m ! i)"
    unfolding d by simp
qed

text \<open>The theorem at the empty table and the one post of the unknown token x.\<close>

theorem vectorize_posts_dict_matches_matrix_witness:
  "[[''x'']] \<noteq> ([] :: token list list)
   \<and> known_dimension Map.empty [''x'']
   \<and> vectorize_posts Map.empty [[''x'']] Map.empty = Inr ([zeros 300], [0 \<mapsto> zeros 300])
   \<and> dom [(0::nat) \<mapsto> zeros 300] = {0..<length [[''x'']]}
   \<and> length [zeros 300] = length [[''x'']]
   \<and> [0 \<mapsto> zeros 300] (0::nat) = Some ([zeros 300] ! 0)"
  using vectorize_posts_dict_matches_matrix
    [of "[[''x'']]" Map.empty Map.empty "[zeros 300]" "[0 \<mapsto> zeros 300]"]
  by (simp add: vectorize_unknown known_dimension_def)


section \<open>Properties of the ranking\<close>

lemma is_argsort_length: "is_argsort a p \<Longrightarrow> length p = length a"
  using distinct_card [of p] by (simp add: is_argsort_def index_permutation_def)

lemma is_argsort_set: "is_argsort a p \<Longrightarrow> set p = {0..<length a}"
  by (simp add: is_argsort_def index_permutation_def)

lemma is_argsort_values:
  "is_argsort a p \<Longrightarrow> sorted_wrt (\<lambda>i j. a ! i \<le> a ! j) p"
  by (simp add: is_argsort_def sorted_map)

lemma is_argsort_insertion: "is_argsort a (insertion_argsort a)"
  by (simp add: is_argsort_def index_permutation_def insertion_argsort_def)

lemma length_cosine_similarity: "length (cosine_similarity m q) = length m"
  by (simp add: cosine_similarity_def)

lemma length_slice_from_neg:
  "0 < k \<Longrightarrow> length (slice_from (- k) xs) = min (nat k) (length xs)"
  by (auto simp: slice_from_def)

lemma set_slice_from: "set (slice_from s xs) \<subseteq> set xs"
  unfolding slice_from_def by (rule set_drop_subset)

lemma sorted_wrt_slice_from: "sorted_wrt P xs \<Longrightarrow> sorted_wrt P (slice_from s xs)"
  unfolding slice_from_def by (rule sorted_wrt_drop)

lemma set_top_indices:
  assumes "is_argsort cs (np_argsort cs)"
  shows "set (top_indices np_argsort cs k) \<subseteq> {0..<length cs}"
  using set_slice_from [of "- k" "np_argsort cs"] is_argsort_set [OF assms]
  by (simp add: top_indices_def)

lemma top_indices_descending:
  assumes "is_argsort cs (np_argsort cs)"
  shows "sorted_wrt (\<lambda>i j. cs ! j \<le> cs ! i) (top_indices np_argsort cs k)"
proof -
  have "sorted_wrt (\<lambda>i j. cs ! i \<le> cs ! j) (np_argsort cs)"
    using assms by (rule is_argsort_values)
  then have "sorted_wrt (\<lambda>i j. cs ! i \<le> cs ! j) (slice_from (- k) (np_argsort cs))"
    by (rule sorted_wrt_slice_from)
  then show ?thesis
    by (simp add: top_indices_def sorted_wrt_rev)
qed

lemma length_rank:
  "length (rank np_argsort m q k) = length (top_indices np_argsort (cosine_similarity m q) k)"
  by (simp add: rank_def Let_def)

text \<open>The scores of the example matrices, and their insertion sort.\<close>

lemma dot_along_first: "dot (along_first x) (along_first y) = x * y"
  by (simp add: dot_def along_first_def sum_list_replicate)

lemma vec_norm_along_first: "vec_norm (along_first x) = \<bar>x\<bar>"
  by (simp add: vec_norm_def dot_along_first)

lemma cosine_tied: "cosine_similarity tied_matrix (along_first 1) = [1, 1]"
  by (simp add: cosine_similarity_def tied_matrix_def cosine_row_def vec_norm_along_first
      dot_along_first)

lemma cosine_opposed: "cosine_similarity opposed_matrix (along_first 4) = [1, - 1]"
  by (simp add: cosine_similarity_def opposed_matrix_def cosine_row_def vec_norm_along_first
      dot_along_first)

lemma cosine_opposed_ab: "cosine_similarity opposed_matrix (along_first 2) = [1, - 1]"
  by (simp add: cosine_similarity_def opposed_matrix_def cosine_row_def vec_norm_along_first
      dot_along_first)

lemma cosine_opposed_zero: "cosine_similarity opposed_matrix (zeros 300) = [0, 0]"
  by (simp add: cosine_similarity_def opposed_matrix_def cosine_row_def vec_norm_along_first
      zeros_along_first)

lemma insertion_argsort_tied: "insertion_argsort [1, 1] = [0, 1]"
  by (simp add: insertion_argsort_def)

lemma insertion_argsort_opposed: "insertion_argsort [1, - 1] = [1, 0]"
  by (simp add: insertion_argsort_def)

lemma insertion_argsort_zero: "insertion_argsort [0, 0] = [0, 1]"
  by (simp add: insertion_argsort_def)

lemma rank_tied: "rank insertion_argsort tied_matrix (along_first 1) 2 = [(1, 1), (0, 1)]"
  by (simp add: rank_def cosine_tied top_indices_def insertion_argsort_tied slice_from_def)

lemma rank_tied_five:
  "rank insertion_argsort tied_matrix (along_first 1) 5 = [(1, 1), (0, 1)]"
  by (simp add: rank_def cosine_tied top_indices_def insertion_argsort_tied slice_from_def)

lemma rank_opposed_minus_one:
  "rank insertion_argsort opposed_matrix (along_first 4) (- 1) = [(0, 1)]"
  by (simp add: rank_def cosine_opposed top_indices_def insertion_argsort_opposed
      slice_from_def)

text \<open>
  Claim C2, amended. For every corpus matrix, query vector and \<open>top_k\<close>, and whatever
  order \<open>np.argsort\<close> gives to equal scores, the ranked sequence is ordered by
  non-increasing score. The notebook adds no tie-break: the indices of the ranking
  are the last \<open>top_k\<close> indices that \<open>np.argsort\<close> returns, in reverse, each with its
  score, so entries with equal scores come in the reverse of the order \<open>np.argsort\<close>
  leaves them in, and the lower index need not come first.
\<close>

theorem rank_descending_reverse_of_argsort:
  assumes "is_argsort (cosine_similarity posts_vec_matrix query_embedding)
             (np_argsort (cosine_similarity posts_vec_matrix query_embedding))"
  shows "sorted_wrt (\<lambda>a b. snd a \<ge> snd b)
           (rank np_argsort posts_vec_matrix query_embedding top_k)
         \<and> map fst (rank np_argsort posts_vec_matrix query_embedding top_k)
             = rev (slice_from (- top_k)
                 (np_argsort (cosine_similarity posts_vec_matrix query_embedding)))
         \<and> map snd (rank np_argsort posts_vec_matrix query_embedding top_k)
             = map (\<lambda>idx. cosine_similarity posts_vec_matrix query_embedding ! idx)
                 (map fst (rank np_argsort posts_vec_matrix query_embedding top_k))"
proof -
  let ?cs = "cosine_similarity posts_vec_matrix query_embedding"
  have "sorted_wrt (\<lambda>a b. snd a \<ge> snd b)
          (rank np_argsort posts_vec_matrix query_embedding top_k)"
    using top_indices_descending [of ?cs np_argsort top_k] assms
    by (simp add: rank_def Let_def sorted_wrt_map)
  moreover have "map fst (rank np_argsort posts_vec_matrix query_embedding top_k)
                   = rev (slice_from (- top_k) (np_argsort ?cs))"
    by (simp add: rank_def Let_def top_indices_def comp_def)
  moreover have "map snd (rank np_argsort posts_vec_matrix query_embedding top_k)
                   = map (\<lambda>idx. ?cs ! idx)
                       (map fst (rank np_argsort posts_vec_matrix query_embedding top_k))"
    by (simp add: rank_def Let_def comp_def)
  ultimately show ?thesis by simp
qed

text \<open>The theorem at insertion sort, the matrix of two equal rows and \<open>top_k = 2\<close>.\<close>

theorem rank_descending_reverse_of_argsort_witness:
  "is_argsort (cosine_similarity tied_matrix (along_first 1))
     (insertion_argsort (cosine_similarity tied_matrix (along_first 1)))
   \<and> rank insertion_argsort tied_matrix (along_first 1) 2 = [(1, 1), (0, 1)]
   \<and> sorted_wrt (\<lambda>a b. snd a \<ge> snd b) (rank insertion_argsort tied_matrix (along_first 1) 2)
   \<and> map fst (rank insertion_argsort tied_matrix (along_first 1) 2)
       = rev (slice_from (- 2) (insertion_argsort (cosine_similarity tied_matrix (along_first 1))))
   \<and> map snd (rank insertion_argsort tied_matrix (along_first 1) 2)
       = map (\<lambda>idx. cosine_similarity tied_matrix (along_first 1) ! idx)
           (map fst (rank insertion_argsort tied_matrix (along_first 1) 2))"
proof -
  have srt: "is_argsort (cosine_similarity tied_matrix (along_first 1))
     (insertion_argsort (cosine_similarity tied_matrix (along_first 1)))"
    by (rule is_argsort_insertion)
  from srt rank_descending_reverse_of_argsort
    [of tied_matrix "along_first 1" insertion_argsort 2]
  show ?thesis
    by (simp add: rank_tied cosine_tied insertion_argsort_tied slice_from_def)
qed

text \<open>
  Claim C2 as stated fails. Two equal rows have the same score against any query. On
  the two scores, \<open>np.argsort\<close> returns index 0, then index 1; for \<open>top_k = 2\<close> the
  notebook reverses this and lists index 1 before index 0.
\<close>

theorem rank_tie_order_counterexample:
  "is_argsort (cosine_similarity tied_matrix (along_first 1))
     (insertion_argsort (cosine_similarity tied_matrix (along_first 1)))
   \<and> insertion_argsort (cosine_similarity tied_matrix (along_first 1)) = [0, 1]
   \<and> rank insertion_argsort tied_matrix (along_first 1) 2 = [(1, 1), (0, 1)]
   \<and> \<not> spec_rank_order (rank insertion_argsort tied_matrix (along_first 1) 2)"
proof (intro conjI)
  show "is_argsort (cosine_similarity tied_matrix (along_first 1))
     (insertion_argsort (cosine_similarity tied_matrix (along_first 1)))"
    by (rule is_argsort_insertion)
  show "insertion_argsort (cosine_similarity tied_matrix (along_first 1)) = [0, 1]"
    by (simp add: cosine_tied insertion_argsort_tied)
  show "rank insertion_argsort tied_matrix (along_first 1) 2 = [(1, 1), (0, 1)]"
    by (rule rank_tied)
  show "\<not> spec_rank_order (rank insertion_argsort tied_matrix (along_first 1) 2)"
    by (simp add: rank_tied spec_rank_order_def)
qed

text \<open>
  Claim C7. For every corpus matrix with N rows, every query vector and every positive
  \<open>top_k\<close>, and whatever order \<open>np.argsort\<close> gives to equal scores, the ranking has
  exactly min(top_k, N) entries, so exactly N entries when \<open>top_k\<close> is at least N;
  every index it returns is a row of the matrix.
\<close>

theorem rank_length:
  assumes "0 < top_k"
    and "is_argsort (cosine_similarity posts_vec_matrix query_embedding)
           (np_argsort (cosine_similarity posts_vec_matrix query_embedding))"
  shows "length (rank np_argsort posts_vec_matrix query_embedding top_k)
           = min (nat top_k) (length posts_vec_matrix)
         \<and> (top_k \<ge> int (length posts_vec_matrix) \<longrightarrow>
              length (rank np_argsort posts_vec_matrix query_embedding top_k)
                = length posts_vec_matrix)
         \<and> (\<forall>entry \<in> set (rank np_argsort posts_vec_matrix query_embedding top_k).
              fst entry < length posts_vec_matrix)"
proof -
  let ?cs = "cosine_similarity posts_vec_matrix query_embedding"
  have len: "length (rank np_argsort posts_vec_matrix query_embedding top_k)
           = min (nat top_k) (length posts_vec_matrix)"
    using assms(1) is_argsort_length [of ?cs "np_argsort ?cs"] assms(2)
    by (simp add: length_rank top_indices_def length_slice_from_neg
        length_cosine_similarity)
  have "fst ` set (rank np_argsort posts_vec_matrix query_embedding top_k)
          \<subseteq> {0..<length posts_vec_matrix}"
    using set_top_indices [of ?cs np_argsort top_k] assms(2)
    by (auto simp: rank_def Let_def length_cosine_similarity)
  then have "\<forall>entry \<in> set (rank np_argsort posts_vec_matrix query_embedding top_k).
              fst entry < length posts_vec_matrix"
    by auto
  with len show ?thesis by auto
qed

text \<open>The theorem at insertion sort, the matrix of two equal rows and \<open>top_k = 5\<close>.\<close>

theorem rank_length_witness:
  "(0::int) < 5 \<and> 5 \<ge> int (length tied_matrix)
   \<and> is_argsort (cosine_similarity tied_matrix (along_first 1))
       (insertion_argsort (cosine_similarity tied_matrix (along_first 1)))
   \<and> rank insertion_argsort tied_matrix (along_first 1) 5 = [(1, 1), (0, 1)]
   \<and> length (rank insertion_argsort tied_matrix (along_first 1) 5)
       = min (nat 5) (length tied_matrix)
   \<and> length (rank insertion_argsort tied_matrix (along_first 1) 5) = length tied_matrix"
proof -
  have rows: "length tied_matrix = 2"
    by (simp add: tied_matrix_def)
  have srt: "is_argsort (cosine_similarity tied_matrix (along_first 1))
       (insertion_argsort (cosine_similarity tied_matrix (along_first 1)))"
    by (rule is_argsort_insertion)
  from srt rows rank_length [of 5 tied_matrix "along_first 1" insertion_argsort]
  show ?thesis
    by (simp add: rank_tied_five)
qed

section \<open>Properties of the query loop\<close>

lemma top_posts_loop_in_range:
  assumes "\<forall>idx \<in> set idxs. idx < length ls \<and> idx < length cs"
  shows "top_posts_loop ls cs acc idxs =
           Inr (acc @ map (\<lambda>idx. \<lparr>post_ID = str_nat idx, post_text = ls ! idx,
                                   sim_score = cs ! idx\<rparr>) idxs)"
  using assms by (induction idxs arbitrary: acc) simp_all

lemma query_top_posts_returns:
  assumes "compute_doc_embedding G query = Inr q" and "length m \<le> length ls"
    and "is_argsort (cosine_similarity m q) (np_argsort (cosine_similarity m q))"
  shows "query_top_posts np_argsort G m ls k query =
           Inr (map (\<lambda>idx. \<lparr>post_ID = str_nat idx, post_text = ls ! idx,
                              sim_score = cosine_similarity m q ! idx\<rparr>)
                  (top_indices np_argsort (cosine_similarity m q) k))"
proof -
  have "\<forall>idx \<in> set (top_indices np_argsort (cosine_similarity m q) k).
          idx < length ls \<and> idx < length (cosine_similarity m q)"
    using set_top_indices [of "cosine_similarity m q" np_argsort k] assms(2,3)
    by (auto simp: length_cosine_similarity)
  then show ?thesis
    using assms(1) by (simp add: query_top_posts_def Let_def top_posts_loop_in_range)
qed

lemma top_posts_unknown:
  "query_top_posts insertion_argsort example_embeddings opposed_matrix
     [''first post'', ''second post''] 1 [''a b'']
   = Inr [\<lparr>post_ID = ''1'', post_text = ''second post'', sim_score = 0\<rparr>]"
  by (simp add: query_top_posts_def compute_example_unknown cosine_opposed_zero
      top_indices_def insertion_argsort_zero slice_from_def str_nat.simps digit_char_def)

lemma top_posts_ab:
  "query_top_posts insertion_argsort example_embeddings opposed_matrix
     [''first post'', ''second post''] 1 [''a'', ''b'']
   = Inr [\<lparr>post_ID = ''0'', post_text = ''first post'', sim_score = 1\<rparr>]"
  by (simp add: query_top_posts_def compute_example_ab cosine_opposed_ab
      top_indices_def insertion_argsort_opposed slice_from_def str_nat.simps digit_char_def)

lemma similarities_example:
  "query_posts_similarities insertion_argsort example_embeddings opposed_matrix
     [''first post'', ''second post''] 1 [[''a b''], [''a'', ''b'']]
   = Inr [''a b'' \<mapsto> [\<lparr>post_ID = ''0'', post_text = ''first post'', sim_score = 1\<rparr>]]"
  by (simp add: query_posts_similarities_def top_posts_unknown top_posts_ab)

text \<open>
  Claim C4, amended. For every corpus matrix and query vector, a \<open>top_k\<close> of zero or
  less raises no validation error: the notebook checks \<open>top_k\<close> nowhere, and the pass
  of the query loop returns a list of records, the entries of the ranking, whenever
  the query can be encoded and \<open>ls_posts\<close> has a text for every row.
\<close>

theorem nonpositive_top_k_no_validation_error:
  assumes "top_k \<le> 0"
    and "compute_doc_embedding en_embeddings query = Inr query_embedding"
    and "length posts_vec_matrix \<le> length ls_posts"
    and "is_argsort (cosine_similarity posts_vec_matrix query_embedding)
           (np_argsort (cosine_similarity posts_vec_matrix query_embedding))"
  shows "\<exists>top_posts.
           query_top_posts np_argsort en_embeddings posts_vec_matrix ls_posts top_k query
             = Inr top_posts
           \<and> map (\<lambda>r. (post_ID r, sim_score r)) top_posts
               = map (\<lambda>entry. (str_nat (fst entry), snd entry))
                   (rank np_argsort posts_vec_matrix query_embedding top_k)"
  using query_top_posts_returns
    [of en_embeddings query query_embedding posts_vec_matrix ls_posts np_argsort top_k]
    assms(2,3,4)
  by (simp add: rank_def Let_def comp_def)

text \<open>
  The theorem at insertion sort, the example table, two opposed rows and
  \<open>top_k = - 1\<close>.
\<close>

theorem nonpositive_top_k_no_validation_error_witness:
  "(- 1 :: int) \<le> 0
   \<and> compute_doc_embedding example_embeddings [''a''] = Inr (along_first 4)
   \<and> length opposed_matrix \<le> length [''first post'', ''second post'']
   \<and> is_argsort (cosine_similarity opposed_matrix (along_first 4))
       (insertion_argsort (cosine_similarity opposed_matrix (along_first 4)))
   \<and> (\<exists>top_posts.
         query_top_posts insertion_argsort example_embeddings opposed_matrix
           [''first post'', ''second post''] (- 1) [''a''] = Inr top_posts
         \<and> map (\<lambda>r. (post_ID r, sim_score r)) top_posts
             = map (\<lambda>entry. (str_nat (fst entry), snd entry))
                 (rank insertion_argsort opposed_matrix (along_first 4) (- 1)))"
proof -
  have rows: "length opposed_matrix \<le> length [''first post'', ''second post'']"
    by (simp add: opposed_matrix_def)
  have srt: "is_argsort (cosine_similarity opposed_matrix (along_first 4))
       (insertion_argsort (cosine_similarity opposed_matrix (along_first 4)))"
    by (rule is_argsort_insertion)
  from rows srt nonpositive_top_k_no_validation_error
    [of "- 1" example_embeddings "[''a'']" "along_first 4" opposed_matrix
        "[''first post'', ''second post'']" insertion_argsort]
  show ?thesis
    by (simp add: compute_example_a)
qed

text \<open>
  Claim C4 as stated fails. With \<open>top_k = 0\<close> the pass of the query loop raises
  nothing: it returns a list of records.
\<close>

theorem top_k_zero_counterexample:
  "query_top_posts insertion_argsort example_embeddings opposed_matrix
     [''first post'', ''second post''] 0 [''a'']
     = Inr [\<lparr>post_ID = ''0'', post_text = ''first post'', sim_score = 1\<rparr>,
            \<lparr>post_ID = ''1'', post_text = ''second post'', sim_score = - 1\<rparr>]"
  by (simp add: query_top_posts_def compute_example_a cosine_opposed top_indices_def
      insertion_argsort_opposed slice_from_def str_nat.simps digit_char_def)

text \<open>
  Claim C3, amended. When zero documents are supplied, \<open>vectorize_posts\<close> returns no
  matrix: the call fails. Given a matrix of zero rows, and whatever \<open>np.argsort\<close> is,
  the ranking is empty for every query vector and every \<open>top_k\<close>, and the pass of the
  query loop returns the empty list for every query that can be encoded, whatever
  \<open>ls_posts\<close> holds.
\<close>

theorem empty_corpus_no_matrix:
  "(\<exists>e. vectorize_posts global_embeddings [] en_embeddings = Inl e)
   \<and> (is_argsort [] (np_argsort []) \<longrightarrow>
        rank np_argsort [] query_embedding top_k = [])
   \<and> (is_argsort [] (np_argsort [])
        \<and> compute_doc_embedding global_embeddings query = Inr query_embedding \<longrightarrow>
        query_top_posts np_argsort global_embeddings [] ls_posts top_k query = Inr [])"
proof -
  have "np_argsort [] = []" if "is_argsort [] (np_argsort [])"
    using is_argsort_length [of "[]" "np_argsort []"] that by simp
  then show ?thesis
    by (auto simp: vectorize_posts_def rank_def cosine_similarity_def top_indices_def
        slice_from_def query_top_posts_def)
qed

text \<open>The theorem at insertion sort, the example table, the query a and \<open>top_k = 5\<close>.\<close>

theorem empty_corpus_no_matrix_witness:
  "is_argsort [] (insertion_argsort [])
   \<and> compute_doc_embedding example_embeddings [''a''] = Inr (along_first 4)
   \<and> (\<exists>e. vectorize_posts example_embeddings [] example_embeddings = Inl e)
   \<and> rank insertion_argsort [] (along_first 4) 5 = []
   \<and> query_top_posts insertion_argsort example_embeddings [] [] 5 [''a''] = Inr []"
  using empty_corpus_no_matrix
    [of example_embeddings example_embeddings insertion_argsort "along_first 4" 5
        "[''a'']" "[]"]
  by (simp add: compute_example_a is_argsort_insertion)

text \<open>
  Claim C3 as stated fails. For an empty list of posts the loop body never runs, the
  variable \<open>document_vec_matrix\<close> is never assigned, and the \<open>return\<close> raises
  UnboundLocalError.
\<close>

theorem empty_corpus_counterexample:
  "vectorize_posts Map.empty [] Map.empty = Inl UnboundLocalError"
  by (simp add: vectorize_posts_def)

text \<open>
  \<open>' '.join\<close> in closed form: the first token, then every further token with one
  space in front of it.
\<close>

lemma join_space_Cons: "join_space (w # ws) = w @ concat (map (\<lambda>v. '' '' @ v) ws)"
  by (induction ws arbitrary: w) simp_all

text \<open>
  The outer loop from any dictionary: the labels of the queries are added to its keys,
  other keys keep their entries, and a label holds the result of the last query that
  has it.
\<close>

lemma query_loop_result:
  assumes "query_loop srt G m ls k acc qs = Inr res"
  shows "dom res = dom acc \<union> join_space ` set qs
         \<and> (\<forall>l. l \<notin> join_space ` set qs \<longrightarrow> res l = acc l)
         \<and> (\<forall>i<length qs.
              (\<forall>j<length qs. i < j \<longrightarrow> join_space (qs ! j) \<noteq> join_space (qs ! i)) \<longrightarrow>
              (\<exists>tp. query_top_posts srt G m ls k (qs ! i) = Inr tp
                    \<and> res (join_space (qs ! i)) = Some tp))"
  using assms
proof (induction qs arbitrary: acc)
  case Nil
  then show ?case by simp
next
  case (Cons q qs)
  from Cons.prems obtain tp where tp: "query_top_posts srt G m ls k q = Inr tp"
    and rec: "query_loop srt G m ls k (acc(join_space q \<mapsto> tp)) qs = Inr res"
    by (auto split: sum.splits)
  note ih = Cons.IH [OF rec]
  have dom: "dom res = dom acc \<union> join_space ` set (q # qs)"
    using ih by auto
  have keep: "\<forall>l. l \<notin> join_space ` set (q # qs) \<longrightarrow> res l = acc l"
    using ih by auto
  have last: "\<exists>tp'. query_top_posts srt G m ls k ((q # qs) ! i) = Inr tp'
                    \<and> res (join_space ((q # qs) ! i)) = Some tp'"
    if i: "i < length (q # qs)"
      and later: "\<forall>j<length (q # qs). i < j \<longrightarrow>
                    join_space ((q # qs) ! j) \<noteq> join_space ((q # qs) ! i)"
    for i
  proof (cases i)
    case 0
    have "join_space q \<notin> join_space ` set qs"
    proof
      assume "join_space q \<in> join_space ` set qs"
      then obtain j where "j < length qs" "join_space (qs ! j) = join_space q"
        by (auto simp: in_set_conv_nth)
      with later 0 show False
        by (auto dest: spec [of _ "Suc j"])
    qed
    with ih have "res (join_space q) = Some tp" by simp
    with tp 0 show ?thesis by simp
  next
    case (Suc i')
    have "\<forall>j<length qs. i' < j \<longrightarrow> join_space (qs ! j) \<noteq> join_space (qs ! i')"
    proof (intro allI impI)
      fix j assume "j < length qs" "i' < j"
      with later Suc show "join_space (qs ! j) \<noteq> join_space (qs ! i')"
        by (auto dest: spec [of _ "Suc j"])
    qed
    with ih i Suc show ?thesis by simp
  qed
  from dom keep last show ?case by blast
qed

text \<open>
  Claim C8. The key of a query is its tokens joined by a single space: the empty
  string for no token, and otherwise the first token followed by every further token
  with one space in front of it. When the query loop returns, the keys of its
  dictionary are exactly the keys of the queries, and each key holds the result list
  of the last query with that key: a later query whose tokens join to the same string
  overwrites the entry of the earlier one.
\<close>

theorem query_label_last_query_wins:
  assumes "query_posts_similarities np_argsort en_embeddings posts_vec_matrix ls_posts
             top_k tokenized_queries = Inr similarities"
  shows "join_space [] = []
         \<and> join_space (w # ws) = w @ concat (map (\<lambda>v. '' '' @ v) ws)
         \<and> dom similarities = join_space ` set tokenized_queries
         \<and> (\<forall>i<length tokenized_queries.
              (\<forall>j<length tokenized_queries. i < j \<longrightarrow>
                 join_space (tokenized_queries ! j) \<noteq> join_space (tokenized_queries ! i)) \<longrightarrow>
              (\<exists>top_posts.
                 query_top_posts np_argsort en_embeddings posts_vec_matrix ls_posts top_k
                   (tokenized_queries ! i) = Inr top_posts
                 \<and> similarities (join_space (tokenized_queries ! i)) = Some top_posts))"
  using query_loop_result [OF assms [unfolded query_posts_similarities_def]]
  by (simp add: join_space_Cons)

text \<open>
  The theorem at two queries with the key \<open>a b\<close>: the entry is the result of the
  second query, not the result of the first.
\<close>

theorem query_label_last_query_wins_witness:
  "query_posts_similarities insertion_argsort example_embeddings opposed_matrix
     [''first post'', ''second post''] 1 [[''a b''], [''a'', ''b'']]
     = Inr [''a b'' \<mapsto> [\<lparr>post_ID = ''0'', post_text = ''first post'', sim_score = 1\<rparr>]]
   \<and> join_space [''a'', ''b''] = ''a b''
   \<and> join_space [''a'', ''b''] = ''a'' @ concat (map (\<lambda>v. '' '' @ v) [''b''])
   \<and> join_space [''a b''] = ''a b''
   \<and> dom [''a b'' \<mapsto> [\<lparr>post_ID = ''0'', post_text = ''first post'', sim_score = 1\<rparr>]]
       = join_space ` set [[''a b''], [''a'', ''b'']]
   \<and> query_top_posts insertion_argsort example_embeddings opposed_matrix
       [''first post'', ''second post''] 1 [''a b'']
       = Inr [\<lparr>post_ID = ''1'', post_text = ''second post'', sim_score = 0\<rparr>]
   \<and> (\<exists>top_posts.
         query_top_posts insertion_argsort example_embeddings opposed_matrix
           [''first post'', ''second post''] 1 ([[''a b''], [''a'', ''b'']] ! 1) = Inr top_posts
         \<and> [''a b'' \<mapsto> [\<lparr>post_ID = ''0'', post_text = ''first post'', sim_score = 1\<rparr>]]
             (join_space ([[''a b''], [''a'', ''b'']] ! 1)) = Some top_posts)"
  using query_label_last_query_wins [OF similarities_example, of "''a''" "[''b'']"]
  by (simp add: similarities_example top_posts_ab top_posts_unknown)

end
